theory Spec2Isabelle
  imports Main "HOL-Library.Char_ord" "HOL-Library.Sublist"
begin

section \<open>Channel resolver: the shape test for channel IDs\<close>

text \<open>
  A Go \<^verbatim>\<open>string\<close> is a sequence of bytes, and so is a HOL \<^typ>\<open>string\<close> (a list of 8-bit
  \<^typ>\<open>char\<close>). \<^verbatim>\<open>len(s)\<close> is the number of bytes and \<^verbatim>\<open>s[0]\<close> is the first byte.

  The loop of \<^verbatim>\<open>IsChannelID\<close> (\<^verbatim>\<open>for _, c := range rest\<close>) walks over the runes that
  UTF-8 decoding finds in \<^verbatim>\<open>rest\<close>. An ASCII byte decodes to itself. A byte of value
  128 or more starts a rune that is at least 128 (or the replacement rune U+FFFD), which is
  neither in \<^verbatim>\<open>'0'..'9'\<close> nor in \<^verbatim>\<open>'A'..'Z'\<close>, so the loop returns \<^verbatim>\<open>false\<close> at that byte;
  the same happens when the byte itself is compared. Up to the first such byte the runes are
  the bytes, and after it the loop has returned: walking over the bytes gives the same result.
\<close>

fun IsChannelID_loop :: "string \<Rightarrow> bool \<Rightarrow> bool" where
  "IsChannelID_loop [] hasDigit = hasDigit"
| "IsChannelID_loop (c # cs) hasDigit =
     (if c \<ge> CHR ''0'' \<and> c \<le> CHR ''9'' then IsChannelID_loop cs True
      else if c < CHR ''A'' \<or> c > CHR ''Z'' then False
      else IsChannelID_loop cs hasDigit)"

definition IsChannelID :: "string \<Rightarrow> bool" where
  "IsChannelID s =
     (if length s < 2 then False
      else let prefix = s ! 0 in
        if prefix \<noteq> CHR ''C'' \<and> prefix \<noteq> CHR ''G'' \<and> prefix \<noteq> CHR ''D'' then False
        else let rest = drop 1 s in
          if length rest = 0 then False
          else IsChannelID_loop rest False)"

subsection \<open>The shape as the specification words it\<close>

definition is_digit :: "char \<Rightarrow> bool" where
  "is_digit c = (c \<in> set ''0123456789'')"

definition is_upper :: "char \<Rightarrow> bool" where
  "is_upper c = (c \<in> set ''ABCDEFGHIJKLMNOPQRSTUVWXYZ'')"

definition ChannelID_shape :: "string \<Rightarrow> bool" where
  "ChannelID_shape s =
     (length s \<ge> 2 \<and> hd s \<in> {CHR ''C'', CHR ''G'', CHR ''D''}
      \<and> list_all (\<lambda>c. is_upper c \<or> is_digit c) (tl s)
      \<and> list_ex is_digit (tl s))"


section \<open>Errors, collaborators and the trace of effects\<close>

text \<open>
  A Go \<^verbatim>\<open>error\<close> is a message, possibly wrapped around a cause:
  \<^verbatim>\<open>fmt.Errorf("...")\<close> is \<open>Errorf\<close>, and \<^verbatim>\<open>fmt.Errorf("<prefix>: %w", err)\<close> is
  \<open>Wrapf prefix err\<close>. Errors that come from outside (the operating system, the platform)
  are values of the same type.
\<close>

datatype error = Errorf string | Wrapf string error

fun Error :: "error \<Rightarrow> string" where
  "Error (Errorf m) = m"
| "Error (Wrapf p e) = p @ '': '' @ Error e"

record Channel =
  Channel_ID :: string
  Channel_Name :: string

record UserProfile =
  DisplayName :: string

record User =
  User_ID :: string
  User_Name :: string
  RealName :: string
  Profile :: UserProfile

record Message =
  TS :: string

record UploadURLResponse =
  UploadURL :: string
  FileID :: string

record CompleteUploadExternalFile =
  File_ID :: string
  File_Title :: string

text \<open>
  The blocks of a message are decoded JSON (\<^verbatim>\<open>[]interface{}\<close>); an object
  (\<^verbatim>\<open>map[string]interface{}\<close>) is a list of key-value pairs with distinct keys, read
  with \<^const>\<open>map_of\<close>.
\<close>

datatype json =
    JNull
  | JBool bool
  | JNumber int
  | JString string
  | JArray "json list"
  | JObject "(string \<times> json) list"

text \<open>
  Every effect of the program is an event, and a run is the list of its events in order.
  The calls of the platform client are the network calls; the others are local: the file
  system, the standard input and the output writer (\<^verbatim>\<open>output.Printf\<close> with its format and
  arguments, \<^verbatim>\<open>output.PrintJSON\<close>).
\<close>

datatype arg = S string | I int

datatype event =
    ListChannelsCall string bool int
  | GetUserInfoCall string
  | SendMessageCall string string string "json list" bool
  | GetUploadURLExternalCall string int
  | UploadFileToURLCall string string
  | CompleteUploadExternalCall "CompleteUploadExternalFile list" string string string
  | Stat string
  | Open string
  | Close string
  | ReadFile string
  | ScanStdin
  | Printf string "arg list"
  | PrintJSON Message

fun is_network_call :: "event \<Rightarrow> bool" where
  "is_network_call (ListChannelsCall _ _ _) = True"
| "is_network_call (GetUserInfoCall _) = True"
| "is_network_call (SendMessageCall _ _ _ _ _) = True"
| "is_network_call (GetUploadURLExternalCall _ _) = True"
| "is_network_call (UploadFileToURLCall _ _) = True"
| "is_network_call (CompleteUploadExternalCall _ _ _ _) = True"
| "is_network_call _ = False"

text \<open>
  The platform client (\<^verbatim>\<open>*client.Client\<close>) is outside this development: its methods are
  parameters. The answer of a call may depend on everything that happened before it, so
  each method takes the events so far and the arguments of the call. The file of
  \<^verbatim>\<open>UploadFileToURL\<close> is the path it was opened from.
\<close>

record Client =
  ListChannels :: "event list \<Rightarrow> string \<Rightarrow> bool \<Rightarrow> int \<Rightarrow> error + Channel list"
  GetUserInfo :: "event list \<Rightarrow> string \<Rightarrow> error + User"
  SendMessage ::
    "event list \<Rightarrow> string \<Rightarrow> string \<Rightarrow> string \<Rightarrow> json list \<Rightarrow> bool \<Rightarrow> error + Message"
  GetUploadURLExternal :: "event list \<Rightarrow> string \<Rightarrow> int \<Rightarrow> error + UploadURLResponse"
  UploadFileToURL :: "event list \<Rightarrow> string \<Rightarrow> string \<Rightarrow> error option"
  CompleteUploadExternal ::
    "event list \<Rightarrow> CompleteUploadExternalFile list \<Rightarrow> string \<Rightarrow> string \<Rightarrow> string
      \<Rightarrow> error option"

text \<open>
  A reader (\<^verbatim>\<open>io.Reader\<close>) is what a \<^verbatim>\<open>bufio.Scanner\<close> finds on it: the lines that
  \<^verbatim>\<open>Scan\<close> yields, and the value of \<^verbatim>\<open>Err\<close> after the last one.
\<close>

type_synonym reader = "string list \<times> error option"

text \<open>
  What the code uses from the Go library, the operating system and the packages
  \<^verbatim>\<open>validate\<close> and \<^verbatim>\<open>client\<close> is a parameter as well. \<^verbatim>\<open>os.Stat\<close> gives the size of the
  file. \<open>json_Encode\<close> is what the encoder of \<^verbatim>\<open>output.PrintJSON\<close> returns when it writes
  a message. \<open>OutputFormat\<close> and \<open>JSON\<close> are the two variables of package \<^verbatim>\<open>output\<close>.
\<close>

record Env =
  strings_ToLower :: "string \<Rightarrow> string"
  strings_EqualFold :: "string \<Rightarrow> string \<Rightarrow> bool"
  validate_Timestamp :: "string \<Rightarrow> error option"
  validate_NormalizeTimestamp :: "string \<Rightarrow> string"
  client_New :: "error + Client"
  client_WrapError :: "string \<Rightarrow> error \<Rightarrow> error"
  os_Stdin :: reader
  os_ReadFile :: "string \<Rightarrow> error + string"
  os_Stat :: "string \<Rightarrow> error + int"
  os_Open :: "string \<Rightarrow> error option"
  filepath_Base :: "string \<Rightarrow> string"
  json_Unmarshal :: "string \<Rightarrow> error + json list"
  json_Encode :: "Message \<Rightarrow> error option"
  OutputFormat :: string
  JSON :: bool

section \<open>Channel resolver\<close>

definition TrimPrefix :: "string \<Rightarrow> string \<Rightarrow> string" where
  "TrimPrefix s p = (if prefix p s then drop (length p) s else s)"

fun find_channel :: "Env \<Rightarrow> Channel list \<Rightarrow> string \<Rightarrow> string option" where
  "find_channel env [] name = None"
| "find_channel env (ch # channels) name =
     (if strings_EqualFold env (Channel_Name ch) name then Some (Channel_ID ch)
      else find_channel env channels name)"

definition lookupChannelByName ::
  "Env \<Rightarrow> Client \<Rightarrow> event list \<Rightarrow> string \<Rightarrow> (error + string) \<times> event list" where
  "lookupChannelByName env c h name0 =
     (let name = strings_ToLower env (TrimPrefix name0 ''#'');
          h1 = h @ [ListChannelsCall ''public_channel,private_channel'' False 1000]
      in case ListChannels c h ''public_channel,private_channel'' False 1000 of
           Inl err \<Rightarrow> (Inl (Wrapf ''failed to list channels'' err), h1)
         | Inr channels \<Rightarrow>
             (case find_channel env channels name of
                Some cid \<Rightarrow> (Inr cid, h1)
              | None \<Rightarrow>
                  (Inl (Errorf (''channel '' @ [CHR 0x27] @ name @ [CHR 0x27]
                      @ '' not found. Use '' @ [CHR 0x27] @ ''slck channels list'' @ [CHR 0x27]
                      @ '' to see available channels'')), h1)))"

definition ResolveChannel ::
  "Env \<Rightarrow> Client \<Rightarrow> event list \<Rightarrow> string \<Rightarrow> (error + string) \<times> event list" where
  "ResolveChannel env c h channel0 =
     (let channel = TrimPrefix channel0 ''#'' in
      if channel = [] then (Inl (Errorf ''channel cannot be empty''), h)
      else if IsChannelID channel then (Inr channel, h)
      else lookupChannelByName env c h channel)"

section \<open>User resolver\<close>

text \<open>
  The resolver owns the cache, a Go map from user ID to display name. The mutex only
  serialises concurrent callers; the calls modelled here are sequential.
\<close>

record UserResolver =
  cache :: "string \<rightharpoonup> string"

definition NewUserResolver :: UserResolver where
  "NewUserResolver = \<lparr>cache = Map.empty\<rparr>"

definition display_name :: "User \<Rightarrow> string \<Rightarrow> string" where
  "display_name user userID =
     (let name = DisplayName (Profile user);
          name = (if name = [] then RealName user else name);
          name = (if name = [] then User_Name user else name);
          name = (if name = [] then userID else name)
      in name)"

definition Resolve ::
  "Client \<Rightarrow> UserResolver \<Rightarrow> event list \<Rightarrow> string \<Rightarrow> string \<times> UserResolver \<times> event list" where
  "Resolve c r h userID =
     (if userID = [] then (userID, r, h)
      else case cache r userID of
        Some name \<Rightarrow> (name, r, h)
      | None \<Rightarrow>
          (case GetUserInfo c h userID of
             Inl err \<Rightarrow> (userID, r, h @ [GetUserInfoCall userID])
           | Inr user \<Rightarrow>
               (let name = display_name user userID
                in (name, r\<lparr>cache := (cache r)(userID \<mapsto> name)\<rparr>,
                    h @ [GetUserInfoCall userID]))))"

text \<open>
  The regular expression \<^verbatim>\<open><@(U[A-Z0-9]+)>\<close> has ASCII characters only, so it is matched on
  bytes. \<open>match_mention s\<close> matches it at the start of \<open>s\<close> and gives the captured
  group and the text after the match. The group is greedy, and the character that must
  follow it is not in its class: there is at most one match at a position.
\<close>

definition in_class :: "char \<Rightarrow> bool" where
  "in_class c = ((CHR ''A'' \<le> c \<and> c \<le> CHR ''Z'') \<or> (CHR ''0'' \<le> c \<and> c \<le> CHR ''9''))"

definition match_mention :: "string \<Rightarrow> (string \<times> string) option" where
  "match_mention s =
     (if prefix ''<@U'' s then
        (let t = drop 3 s; run = takeWhile in_class t; after = dropWhile in_class t
         in if run \<noteq> [] \<and> prefix ''>'' after then Some (CHR ''U'' # run, drop 1 after)
            else None)
      else None)"

text \<open>
  \<^verbatim>\<open>FindStringSubmatch\<close> gives the leftmost match and its group, or \<^verbatim>\<open>nil\<close> (the empty
  list) when there is none.
\<close>

fun FindStringSubmatch :: "string \<Rightarrow> string list" where
  "FindStringSubmatch [] = []"
| "FindStringSubmatch (c # cs) =
     (case match_mention (c # cs) of
        Some (g, rest) \<Rightarrow> [''<@'' @ g @ ''>'', g]
      | None \<Rightarrow> FindStringSubmatch cs)"

text \<open>The function that \<^verbatim>\<open>ResolveMentions\<close> passes to \<^verbatim>\<open>ReplaceAllStringFunc\<close>.\<close>

definition replace_mention ::
  "Client \<Rightarrow> UserResolver \<Rightarrow> event list \<Rightarrow> string \<Rightarrow> string \<times> UserResolver \<times> event list" where
  "replace_mention c r h match =
     (let sub = FindStringSubmatch match in
      if length sub < 2 then (match, r, h)
      else (case Resolve c r h (sub ! 1) of (name, r', h') \<Rightarrow> (''@'' @ name, r', h')))"

function ResolveMentions ::
  "Client \<Rightarrow> UserResolver \<Rightarrow> event list \<Rightarrow> string \<Rightarrow> string \<times> UserResolver \<times> event list" where
  "ResolveMentions c r h text =
     (case match_mention text of
        Some (g, rest) \<Rightarrow>
          (case replace_mention c r h (''<@'' @ g @ ''>'') of
             (rep, r1, h1) \<Rightarrow>
               (case ResolveMentions c r1 h1 rest of
                  (out, r2, h2) \<Rightarrow> (rep @ out, r2, h2)))
      | None \<Rightarrow>
          (case text of
             [] \<Rightarrow> ([], r, h)
           | ch # cs \<Rightarrow>
               (case ResolveMentions c r h cs of
                  (out, r2, h2) \<Rightarrow> (ch # out, r2, h2))))"
  by pat_completeness auto
termination
proof (relation "measure (\<lambda>(c, r, h, s). length s)", goal_cases)
  case 1
  show ?case by simp
next
  case 2
  then show ?case by simp
next
  case 3
  have shorter: "length rest < length s" if "match_mention s = Some (g, rest)" for s g rest
  proof -
    from that have "prefix ''<@U'' s" and "rest = drop 1 (dropWhile in_class (drop 3 s))"
      by (auto simp: match_mention_def Let_def split: if_splits)
    then show ?thesis
      using length_dropWhile_le [of in_class "drop 3 s"] by (auto simp: prefix_def)
  qed
  from 3 shorter show ?case
    by simp metis
qed

section \<open>Message composer and file delivery\<close>

record sendOptions =
  threadTS :: string
  blocksJSON :: string
  blocksFile :: string
  blocksStdin :: bool
  simple :: bool
  noUnfurl :: bool
  files :: "string list"
  fileTitle :: string
  stdin :: "reader option"

text \<open>Package \<^verbatim>\<open>output\<close>: \<^verbatim>\<open>IsJSON\<close>.\<close>

definition IsJSON :: "Env \<Rightarrow> bool" where
  "IsJSON env = (OutputFormat env = ''json'' \<or> JSON env)"

text \<open>
  Modelled from the spec: \<^verbatim>\<open>unescapeShellChars\<close> is called by \<^verbatim>\<open>runSend\<close> and tested in
  \<^verbatim>\<open>TestUnescapeShellChars\<close>, and its body is missing. The specification: sequences of
  backslash immediately followed by \<^verbatim>\<open>!\<close> are rewritten to a bare \<^verbatim>\<open>!\<close>; any other
  backslash sequence is left untouched. The text is read from left to right.
\<close>

fun unescapeShellChars :: "string \<Rightarrow> string" where
  "unescapeShellChars [] = []"
| "unescapeShellChars [c] = [c]"
| "unescapeShellChars (c # d # cs) =
     (if c = CHR 0x5C \<and> d = CHR ''!'' then CHR ''!'' # unescapeShellChars cs
      else c # unescapeShellChars (d # cs))"

text \<open>
  Modelled from the spec: \<^verbatim>\<open>buildDefaultBlocks\<close> is called by \<^verbatim>\<open>runSend\<close> and tested in
  \<^verbatim>\<open>TestBuildDefaultBlocks\<close>, and its body is missing. The specification: a single default
  structured block, one "section" block whose text object has styled-markdown type and the
  literal provided text as its content. The test reads the keys \<^verbatim>\<open>type\<close> and \<^verbatim>\<open>text\<close> of
  the block and of its text object, and expects \<^verbatim>\<open>section\<close> and \<^verbatim>\<open>mrkdwn\<close>.
\<close>

definition buildDefaultBlocks :: "string \<Rightarrow> json list" where
  "buildDefaultBlocks text =
     [JObject [(''type'', JString ''section''),
               (''text'', JObject [(''type'', JString ''mrkdwn''), (''text'', JString text)])]]"

text \<open>Lines 107 to 116 of \<^verbatim>\<open>runSend\<close>: how many sources of blocks are set.\<close>

definition blocksOptionsCount :: "sendOptions \<Rightarrow> nat" where
  "blocksOptionsCount opts =
     (let n = 0;
          n = (if blocksJSON opts \<noteq> [] then n + 1 else n);
          n = (if blocksFile opts \<noteq> [] then n + 1 else n);
          n = (if blocksStdin opts then n + 1 else n)
      in n)"

text \<open>
  The loop that \<^verbatim>\<open>runSend\<close> runs on a scanner, twice (lines 130 to 141 and 162 to 173):
  a newline goes before a line only when something has been read already.
\<close>

fun scan_lines :: "string list \<Rightarrow> string \<Rightarrow> string" where
  "scan_lines [] lines = lines"
| "scan_lines (l # ls) lines =
     scan_lines ls ((if length lines > 0 then lines @ [CHR 0x0A] else lines) @ l)"

definition read_reader :: "reader \<Rightarrow> error + string" where
  "read_reader rd =
     (let lines = scan_lines (fst rd) [] in
      case snd rd of Some err \<Rightarrow> Inl err | None \<Rightarrow> Inr lines)"

definition the_reader :: "Env \<Rightarrow> sendOptions \<Rightarrow> reader" where
  "the_reader env opts = (case stdin opts of None \<Rightarrow> os_Stdin env | Some rd \<Rightarrow> rd)"

text \<open>The loop of \<^verbatim>\<open>uploadFiles\<close> over \<^verbatim>\<open>opts.files\<close> (lines 228 to 264).\<close>

fun uploadFiles_loop ::
  "Env \<Rightarrow> Client \<Rightarrow> sendOptions \<Rightarrow> event list \<Rightarrow> string list \<Rightarrow> CompleteUploadExternalFile list
    \<Rightarrow> (error + CompleteUploadExternalFile list) \<times> event list" where
  "uploadFiles_loop env c opts h [] uploadedFiles = (Inr uploadedFiles, h)"
| "uploadFiles_loop env c opts h (filePath # rest) uploadedFiles =
     (let h1 = h @ [Stat filePath] in
      case os_Stat env filePath of
        Inl err \<Rightarrow> (Inl (Wrapf (''cannot access file '' @ filePath) err), h1)
      | Inr fsize \<Rightarrow>
          (let filename = filepath_Base env filePath;
               h2 = h1 @ [Printf (''Uploading %s (%d bytes)...'' @ [CHR 0x0A]) [S filename, I fsize]];
               h3 = h2 @ [GetUploadURLExternalCall filename fsize]
           in case GetUploadURLExternal c h2 filename fsize of
                Inl err \<Rightarrow> (Inl (client_WrapError env ''get upload URL'' err), h3)
              | Inr uploadResp \<Rightarrow>
                  (let h4 = h3 @ [Open filePath] in
                   case os_Open env filePath of
                     Some err \<Rightarrow> (Inl (Wrapf (''opening file '' @ filePath) err), h4)
                   | None \<Rightarrow>
                       (let h5 = h4 @ [UploadFileToURLCall (UploadURL uploadResp) filePath];
                            h6 = h5 @ [Close filePath]
                        in case UploadFileToURL c h4 (UploadURL uploadResp) filePath of
                             Some err \<Rightarrow> (Inl (client_WrapError env ''upload file'' err), h6)
                           | None \<Rightarrow>
                               (let title = fileTitle opts;
                                    title = (if title = [] then filename else title)
                                in uploadFiles_loop env c opts h6 rest
                                     (uploadedFiles @
                                        [\<lparr>File_ID = FileID uploadResp, File_Title = title\<rparr>]))))))"

definition uploadFiles ::
  "Env \<Rightarrow> Client \<Rightarrow> event list \<Rightarrow> string \<Rightarrow> string \<Rightarrow> sendOptions \<Rightarrow> error option \<times> event list" where
  "uploadFiles env c h channelID text opts =
     (case uploadFiles_loop env c opts h (files opts) [] of
        (Inl err, h1) \<Rightarrow> (Some err, h1)
      | (Inr uploadedFiles, h1) \<Rightarrow>
          (let h2 = h1 @ [CompleteUploadExternalCall uploadedFiles channelID (threadTS opts) text]
           in case CompleteUploadExternal c h1 uploadedFiles channelID (threadTS opts) text of
                Some err \<Rightarrow> (Some (client_WrapError env ''complete upload'' err), h2)
              | None \<Rightarrow>
                  (if length uploadedFiles = 1
                   then (None, h2 @ [Printf (''File uploaded to channel %s'' @ [CHR 0x0A]) [S channelID]])
                   else (None, h2 @ [Printf (''%d files uploaded to channel %s'' @ [CHR 0x0A])
                                      [I (int (length uploadedFiles)), S channelID]]))))"

text \<open>
  \<^verbatim>\<open>runSend\<close>, in the order of the source. Lines 99 to 104: the thread timestamp, which
  the function writes back, normalised, into the options.
\<close>

definition validate_thread :: "Env \<Rightarrow> sendOptions \<Rightarrow> error + sendOptions" where
  "validate_thread env opts =
     (if threadTS opts \<noteq> [] then
        (case validate_Timestamp env (threadTS opts) of
           Some err \<Rightarrow> Inl err
         | None \<Rightarrow> Inr (opts\<lparr>threadTS := validate_NormalizeTimestamp env (threadTS opts)\<rparr>))
      else Inr opts)"

text \<open>Lines 122 to 142: the text, read from the standard input when it is \<^verbatim>\<open>-\<close>.\<close>

definition read_text ::
  "Env \<Rightarrow> sendOptions \<Rightarrow> event list \<Rightarrow> string \<Rightarrow> (error + string) \<times> event list" where
  "read_text env opts h text =
     (if text = ''-'' then
        (if blocksStdin opts then
           (Inl (Errorf (''cannot use '' @ [CHR 0x27] @ ''-'' @ [CHR 0x27]
              @ '' for text and --blocks-stdin together; stdin can only be used for one'')), h)
         else
           (case read_reader (the_reader env opts) of
              Inl err \<Rightarrow> (Inl (Wrapf ''reading stdin'' err), h @ [ScanStdin])
            | Inr lines \<Rightarrow> (Inr lines, h @ [ScanStdin])))
      else (Inr text, h))"

text \<open>Lines 148 to 174: the source of the blocks.\<close>

definition read_blocksSource ::
  "Env \<Rightarrow> sendOptions \<Rightarrow> event list \<Rightarrow> (error + string) \<times> event list" where
  "read_blocksSource env opts h =
     (if blocksJSON opts \<noteq> [] then (Inr (blocksJSON opts), h)
      else if blocksFile opts \<noteq> [] then
        (case os_ReadFile env (blocksFile opts) of
           Inl err \<Rightarrow> (Inl (Wrapf ''reading blocks file'' err), h @ [ReadFile (blocksFile opts)])
         | Inr data \<Rightarrow> (Inr data, h @ [ReadFile (blocksFile opts)]))
      else if blocksStdin opts then
        (case read_reader (the_reader env opts) of
           Inl err \<Rightarrow> (Inl (Wrapf ''reading blocks from stdin'' err), h @ [ScanStdin])
         | Inr lines \<Rightarrow> (Inr lines, h @ [ScanStdin]))
      else (Inr [], h))"

text \<open>
  Lines 202 to 210: the blocks of the message. A \<^verbatim>\<open>nil\<close> slice of blocks is the empty
  list.
\<close>

definition message_blocks :: "Env \<Rightarrow> sendOptions \<Rightarrow> string \<Rightarrow> string \<Rightarrow> error + json list" where
  "message_blocks env opts blocksSource text =
     (if blocksSource \<noteq> [] then
        (case json_Unmarshal env blocksSource of
           Inl err \<Rightarrow> Inl (Wrapf ''invalid blocks JSON'' err)
         | Inr blocks \<Rightarrow> Inr blocks)
      else if \<not> simple opts \<and> text \<noteq> [] then Inr (buildDefaultBlocks text)
      else Inr [])"

text \<open>
  Lines 212 to 222: the call of \<^verbatim>\<open>SendMessage\<close> and the report. \<^verbatim>\<open>output.PrintJSON\<close>
  returns what the encoder returns.
\<close>

definition send_and_report ::
  "Env \<Rightarrow> Client \<Rightarrow> event list \<Rightarrow> string \<Rightarrow> string \<Rightarrow> sendOptions \<Rightarrow> json list
    \<Rightarrow> error option \<times> event list" where
  "send_and_report env c h channelID text opts blocks =
     (let h1 = h @ [SendMessageCall channelID text (threadTS opts) blocks (\<not> noUnfurl opts)] in
      case SendMessage c h channelID text (threadTS opts) blocks (\<not> noUnfurl opts) of
        Inl err \<Rightarrow> (Some (client_WrapError env ''send message'' err), h1)
      | Inr msg \<Rightarrow>
          (if IsJSON env then (json_Encode env msg, h1 @ [PrintJSON msg])
           else (None, h1 @ [Printf (''Message sent (ts: %s)'' @ [CHR 0x0A]) [S (TS msg)]])))"

definition runSend ::
  "Env \<Rightarrow> event list \<Rightarrow> string \<Rightarrow> string \<Rightarrow> sendOptions \<Rightarrow> Client option
    \<Rightarrow> error option \<times> event list" where
  "runSend env h channel text0 opts0 c0 =
     (case validate_thread env opts0 of
        Inl err \<Rightarrow> (Some err, h)
      | Inr opts \<Rightarrow>
          if blocksOptionsCount opts > 1 then
            (Some (Errorf ''only one of --blocks, --blocks-file, or --blocks-stdin can be specified''), h)
          else
            (case read_text env opts h text0 of
               (Inl err, h1) \<Rightarrow> (Some err, h1)
             | (Inr text1, h1) \<Rightarrow>
                 (let text = unescapeShellChars text1 in
                  case read_blocksSource env opts h1 of
                    (Inl err, h2) \<Rightarrow> (Some err, h2)
                  | (Inr blocksSource, h2) \<Rightarrow>
                      (let hasBlocks = (blocksSource \<noteq> []);
                           hasFiles = (length (files opts) > 0)
                       in if text = [] \<and> \<not> hasBlocks \<and> \<not> hasFiles then
                            (Some (Errorf ''message text cannot be empty (or provide blocks via --blocks, --blocks-file, --blocks-stdin, or files via --file)''), h2)
                          else
                            (case (case c0 of None \<Rightarrow> client_New env | Some c \<Rightarrow> Inr c) of
                               Inl err \<Rightarrow> (Some err, h2)
                             | Inr c \<Rightarrow>
                                 (case ResolveChannel env c h2 channel of
                                    (Inl err, h3) \<Rightarrow> (Some err, h3)
                                  | (Inr channelID, h3) \<Rightarrow>
                                      if hasFiles then uploadFiles env c h3 channelID text opts
                                      else
                                        (case message_blocks env opts blocksSource text of
                                           Inl err \<Rightarrow> (Some err, h3)
                                         | Inr blocks \<Rightarrow>
                                             send_and_report env c h3 channelID text opts blocks)))))))"

section \<open>A concrete platform and environment\<close>

text \<open>
  The collaborators of the repository's tests: a platform that knows two users and one
  channel and accepts every message and upload, and an environment with one readable file.
  The stand-ins for \<^verbatim>\<open>strings.ToLower\<close> and \<^verbatim>\<open>strings.EqualFold\<close> are exact on the lower-case
  names used here, and \<^verbatim>\<open>validate.Timestamp\<close> rejects the timestamp that
  \<^verbatim>\<open>TestRunSend_InvalidThreadTimestamp\<close> expects to be rejected.
\<close>

definition mk_user :: "string \<Rightarrow> string \<Rightarrow> User" where
  "mk_user uid name =
     \<lparr>User_ID = uid, User_Name = name, RealName = name, Profile = \<lparr>DisplayName = name\<rparr>\<rparr>"

definition test_client :: Client where
  "test_client =
     \<lparr>ListChannels = (\<lambda>h types excludeArchived limit.
          Inr [\<lparr>Channel_ID = ''C111111'', Channel_Name = ''general''\<rparr>]),
      GetUserInfo = (\<lambda>h uid.
          if uid = ''U001'' then Inr (mk_user uid ''alice'')
          else if uid = ''U002'' then Inr (mk_user uid ''bob'')
          else Inl (Errorf ''user_not_found'')),
      SendMessage = (\<lambda>h channelID text ts blocks unfurl. Inr \<lparr>TS = ''1234567890.123456''\<rparr>),
      GetUploadURLExternal = (\<lambda>h filename fsize.
          Inr \<lparr>UploadURL = ''https://upload'', FileID = ''F123''\<rparr>),
      UploadFileToURL = (\<lambda>h url path. None),
      CompleteUploadExternal = (\<lambda>h uploaded channelID ts text. None)\<rparr>"

definition test_env :: Env where
  "test_env =
     \<lparr>strings_ToLower = (\<lambda>s. s),
      strings_EqualFold = (\<lambda>s t. s = t),
      validate_Timestamp = (\<lambda>ts.
          if ts = ''not-a-timestamp'' then Some (Errorf ''invalid timestamp'') else None),
      validate_NormalizeTimestamp = (\<lambda>ts. ts),
      client_New = Inr test_client,
      client_WrapError = Wrapf,
      os_Stdin = ([], None),
      os_ReadFile = (\<lambda>path. Inl (Errorf ''no such file or directory'')),
      os_Stat = (\<lambda>path.
          if path = ''report.txt'' then Inr 11 else Inl (Errorf ''no such file or directory'')),
      os_Open = (\<lambda>path.
          if path = ''report.txt'' then None else Some (Errorf ''no such file or directory'')),
      filepath_Base = (\<lambda>path. path),
      json_Unmarshal = (\<lambda>src. Inl (Errorf ''invalid character'')),
      json_Encode = (\<lambda>msg. None),
      OutputFormat = ''text'',
      JSON = False\<rparr>"

(*THEOREMS*)
section \<open>The shape test decides the shape\<close>

lemma char_eq_nat: "(c = d) = ((of_char c :: nat) = of_char d)"
  by simp

lemma digit_range: "(c \<ge> CHR ''0'' \<and> c \<le> CHR ''9'') = is_digit c"
proof -
  have "(c \<ge> CHR ''0'' \<and> c \<le> CHR ''9'')
      = (48 \<le> (of_char c :: nat) \<and> (of_char c :: nat) \<le> 57)"
    by (simp add: less_eq_char_def)
  also have "\<dots> = ((of_char c :: nat) \<in> set (map of_char ''0123456789''))"
    by (simp, arith)
  also have "\<dots> = is_digit c"
    by (simp add: is_digit_def char_eq_nat [of c])
  finally show ?thesis .
qed

lemma upper_range: "(\<not> (c < CHR ''A'' \<or> c > CHR ''Z'')) = is_upper c"
proof -
  have "(\<not> (c < CHR ''A'' \<or> c > CHR ''Z''))
      = (65 \<le> (of_char c :: nat) \<and> (of_char c :: nat) \<le> 90)"
    by (auto simp add: less_char_def)
  also have "\<dots> = ((of_char c :: nat) \<in> set (map of_char ''ABCDEFGHIJKLMNOPQRSTUVWXYZ''))"
    by (simp, arith)
  also have "\<dots> = is_upper c"
    by (simp add: is_upper_def char_eq_nat [of c])
  finally show ?thesis .
qed

text \<open>The loop keeps going while it sees upper-case letters and digits, and remembers a digit.\<close>

lemma IsChannelID_loop_eq:
  "IsChannelID_loop cs hasDigit =
     (list_all (\<lambda>c. is_upper c \<or> is_digit c) cs \<and> (hasDigit \<or> list_ex is_digit cs))"
proof (induction cs arbitrary: hasDigit)
  case Nil
  show ?case by simp
next
  case (Cons c cs)
  show ?case
  proof (cases "is_digit c")
    case True
    then show ?thesis
      using Cons.IH [of True] by (simp add: digit_range)
  next
    case False
    then show ?thesis
      using Cons.IH [of hasDigit] upper_range [of c] by (auto simp add: digit_range)
  qed
qed

lemma IsChannelID_shape: "IsChannelID s = ChannelID_shape s"
proof (cases s)
  case Nil
  then show ?thesis by (simp add: IsChannelID_def ChannelID_shape_def)
next
  case (Cons p rest)
  then show ?thesis
    by (cases rest) (auto simp add: IsChannelID_def ChannelID_shape_def IsChannelID_loop_eq Let_def)
qed

text \<open>
  Claim C1. For every string \<open>s\<close>, \<open>IsChannelID s\<close> is true if and only if \<open>s\<close> has
  length at least 2, its first character is one of C, G, D, every remaining character is an
  upper-case letter or a digit, and at least one remaining character is a digit; so
  \<open>GENERAL\<close> (no digit) and \<open>C123abc\<close> (lower case) are not channel IDs.
\<close>

theorem IsChannelID_correct:
  "IsChannelID s = ChannelID_shape s
   \<and> IsChannelID ''GENERAL'' = False \<and> IsChannelID ''C123abc'' = False"
  by (simp add: IsChannelID_shape ChannelID_shape_def is_digit_def is_upper_def)

section \<open>A token of the shape of an ID is returned without a listing\<close>

text \<open>
  Claim C4. A token that is not empty and has the shape of a channel ID once one leading
  \<open>#\<close> is stripped, that is \<open>t\<close> itself or \<open>#t\<close> for a \<open>t\<close> of that shape, is resolved to
  \<open>t\<close>, and the trace of events is the one before the call: no channel listing, and no
  other network call, is made.
\<close>

theorem ResolveChannel_ID:
  assumes "ChannelID_shape t"
  shows "ResolveChannel env c h t = (Inr t, h)
       \<and> ResolveChannel env c h (CHR ''#'' # t) = (Inr t, h)"
proof -
  from assms have ne: "t \<noteq> []" and hd: "hd t \<noteq> CHR ''#''"
    by (auto simp: ChannelID_shape_def)
  then have "TrimPrefix t ''#'' = t"
    by (cases t) (auto simp: TrimPrefix_def)
  moreover have "TrimPrefix (CHR ''#'' # t) ''#'' = t"
    by (simp add: TrimPrefix_def)
  ultimately show ?thesis
    using assms ne by (simp add: ResolveChannel_def IsChannelID_shape)
qed

theorem ResolveChannel_ID_witness:
  "ChannelID_shape ''C02DF3BEUGN''
   \<and> ResolveChannel test_env test_client [] ''C02DF3BEUGN'' = (Inr ''C02DF3BEUGN'', [])
   \<and> ResolveChannel test_env test_client [] ''#C02DF3BEUGN'' = (Inr ''C02DF3BEUGN'', [])"
proof -
  have shape: "ChannelID_shape ''C02DF3BEUGN''"
    by (simp add: ChannelID_shape_def is_digit_def is_upper_def)
  show ?thesis
    using shape ResolveChannel_ID [OF shape, of test_env test_client "[]"] by simp
qed

end
